theory Spec2Isabelle
  imports Complex_Main
begin

section \<open>Numbers, errors and Python's arithmetic operators\<close>

text \<open>
  The calculator of \<^verbatim>\<open>kalkulacka.py\<close> computes with Python \<^verbatim>\<open>float\<close>s. They are
  modelled here as real numbers: rounding and overflow of binary64 are outside the model,
  every arithmetic operator computes the exact real result. What the operators do beyond
  computing a number is kept:
  \<^item> \<^verbatim>\<open>a / b\<close> raises \<^verbatim>\<open>ZeroDivisionError\<close> when \<^verbatim>\<open>b\<close> is zero;
  \<^item> \<^verbatim>\<open>x ** n\<close> raises \<^verbatim>\<open>ZeroDivisionError\<close> when \<^verbatim>\<open>x\<close> is zero and the exponent
    is negative;
  \<^item> \<^verbatim>\<open>x ** y\<close> with a negative base and a fractional exponent returns a
    \<^verbatim>\<open>complex\<close> number. Complex values are not followed further: the model stops there
    with \<open>ComplexValue\<close>.
\<close>

datatype py_error = ZeroDivisionError | ComplexValue | ValueError

definition and_then :: "py_error + 'a \<Rightarrow> ('a \<Rightarrow> py_error + 'b) \<Rightarrow> py_error + 'b" where
  "and_then r f = (case r of Inl e \<Rightarrow> Inl e | Inr v \<Rightarrow> f v)"

definition py_div :: "real \<Rightarrow> real \<Rightarrow> py_error + real" where
  "py_div a b = (if b = 0 then Inl ZeroDivisionError else Inr (a / b))"

text \<open>\<^verbatim>\<open>x ** n\<close> for a float \<^verbatim>\<open>x\<close> and an int \<^verbatim>\<open>n\<close>.\<close>

definition py_pow_int :: "real \<Rightarrow> int \<Rightarrow> py_error + real" where
  "py_pow_int x n = (if x = 0 \<and> n < 0 then Inl ZeroDivisionError else Inr (x powi n))"

text \<open>\<^verbatim>\<open>x ** y\<close> for two floats.\<close>

definition py_pow_float :: "real \<Rightarrow> real \<Rightarrow> py_error + real" where
  "py_pow_float x y =
     (if of_int \<lfloor>y\<rfloor> = y then py_pow_int x \<lfloor>y\<rfloor>
      else if x < 0 then Inl ComplexValue
      else if x = 0 \<and> y < 0 then Inl ZeroDivisionError
      else Inr (x powr y))"

text \<open>
  \<^verbatim>\<open>round(x)\<close> with one argument returns the nearest integer, a tie going to the even
  neighbour; \<^verbatim>\<open>int(...)\<close> of that integer changes nothing.
\<close>

definition py_round :: "real \<Rightarrow> int" where
  "py_round x =
     (let f = \<lfloor>x\<rfloor>; d = x - of_int f
      in if d < 1 / 2 then f
         else if 1 / 2 < d then f + 1
         else if even f then f else f + 1)"


section \<open>Data model\<close>

datatype InvestmentType = ONE_TIME | MONTHLY | COMBINED

text \<open>The \<^verbatim>\<open>.value\<close> of a member of the string enum.\<close>

fun InvestmentType_value :: "InvestmentType \<Rightarrow> string" where
  "InvestmentType_value ONE_TIME = ''one_time''"
| "InvestmentType_value MONTHLY = ''monthly''"
| "InvestmentType_value COMBINED = ''combined''"

record LumpSumInput =
  target_amount :: real
  years :: real
  annual_rate_accum :: real
  investment_type :: InvestmentType
  one_time_investment :: real

record RentaInput =
  monthly_rent :: real
  years_rent :: real
  annual_rate_rent :: real
  years_saving :: real
  annual_rate_accum :: real
  investment_type :: InvestmentType
  one_time_investment :: real

text \<open>
  A result is a \<^verbatim>\<open>Dict[str, Any]\<close> filled by assignments to fresh keys: an association
  list in insertion order, its values strings or numbers.
\<close>

datatype py_value = Str string | Num real

type_synonym result = "(string \<times> py_value) list"


section \<open>The math library\<close>

definition eff_monthly_rate :: "real \<Rightarrow> py_error + real" where
  "eff_monthly_rate annual_rate =
     and_then (py_pow_float (1 + annual_rate) (1 / 12)) (\<lambda>p. Inr (p - 1))"

definition fv_lump_sum :: "real \<Rightarrow> real \<Rightarrow> int \<Rightarrow> py_error + real" where
  "fv_lump_sum pv i n_months =
     and_then (py_pow_int (1 + i) n_months) (\<lambda>p. Inr (pv * p))"

definition pv_from_fv :: "real \<Rightarrow> real \<Rightarrow> int \<Rightarrow> py_error + real" where
  "pv_from_fv fv i n_months =
     and_then (py_pow_int (1 + i) n_months) (\<lambda>p. py_div fv p)"


definition annuity_from_fv :: "real \<Rightarrow> real \<Rightarrow> int \<Rightarrow> py_error + real" where
  "annuity_from_fv fv i n_months =
     (if i = 0 then py_div fv (of_int n_months)
      else and_then (py_pow_int (1 + i) n_months)
             (\<lambda>p. py_div (fv * i) (p - 1)))"

definition pv_renta_required :: "real \<Rightarrow> real \<Rightarrow> real \<Rightarrow> py_error + real" where
  "pv_renta_required monthly_rent' annual_rate_rent' years_rent' =
     and_then (eff_monthly_rate annual_rate_rent') (\<lambda>i2.
       let n = py_round (years_rent' * 12)
       in if i2 = 0 then Inr (monthly_rent' * of_int n)
          else and_then (py_pow_int (1 + i2) (- n))
                 (\<lambda>p. py_div (monthly_rent' * (1 - p)) i2))"


section \<open>The plan calculators\<close>

definition compute_lump_sum :: "LumpSumInput \<Rightarrow> py_error + result" where
  "compute_lump_sum input_data =
     and_then (eff_monthly_rate (LumpSumInput.annual_rate_accum input_data)) (\<lambda>i.
       let n = py_round (LumpSumInput.years input_data * 12);
           result =
             [(''goal_type'', Str ''lump_sum''),
              (''target_amount'', Num (target_amount input_data)),
              (''years'', Num (LumpSumInput.years input_data)),
              (''annual_rate_accum'', Num (LumpSumInput.annual_rate_accum input_data)),
              (''investment_type'',
                 Str (InvestmentType_value (LumpSumInput.investment_type input_data)))]
       in case LumpSumInput.investment_type input_data of
            ONE_TIME \<Rightarrow>
              and_then (pv_from_fv (target_amount input_data) i n) (\<lambda>pv_needed.
                Inr (result @ [(''required_wealth_today'', Num pv_needed)]))
          | MONTHLY \<Rightarrow>
              and_then (annuity_from_fv (target_amount input_data) i n) (\<lambda>monthly.
                Inr (result @ [(''monthly_investment'', Num monthly)]))
          | COMBINED \<Rightarrow>
              and_then (fv_lump_sum (LumpSumInput.one_time_investment input_data) i n)
                (\<lambda>fv_one_time.
                  let remaining = target_amount input_data - fv_one_time;
                      remaining = (if remaining < 0 then 0 else remaining)
                  in and_then (annuity_from_fv remaining i n) (\<lambda>monthly.
                       Inr (result @
                         [(''one_time_investment'',
                             Num (LumpSumInput.one_time_investment input_data)),
                          (''monthly_investment'', Num monthly),
                          (''fv_one_time_investment'', Num fv_one_time),
                          (''target_amount_remaining_for_monthly'', Num remaining)]))))"

definition compute_renta :: "RentaInput \<Rightarrow> py_error + result" where
  "compute_renta input_data =
     and_then (pv_renta_required (monthly_rent input_data) (annual_rate_rent input_data)
                 (years_rent input_data)) (\<lambda>required_wealth_at_rent_start.
     and_then (eff_monthly_rate (RentaInput.annual_rate_accum input_data)) (\<lambda>i1.
       let m = py_round (years_saving input_data * 12);
           result =
             [(''goal_type'', Str ''renta''),
              (''monthly_rent'', Num (monthly_rent input_data)),
              (''years_rent'', Num (years_rent input_data)),
              (''annual_rate_rent'', Num (annual_rate_rent input_data)),
              (''years_saving'', Num (years_saving input_data)),
              (''annual_rate_accum'', Num (RentaInput.annual_rate_accum input_data)),
              (''investment_type'',
                 Str (InvestmentType_value (RentaInput.investment_type input_data))),
              (''required_wealth_at_rent_start'', Num required_wealth_at_rent_start)]
       in case RentaInput.investment_type input_data of
            ONE_TIME \<Rightarrow>
              and_then (pv_from_fv required_wealth_at_rent_start i1 m) (\<lambda>pv_today.
                Inr (result @ [(''required_wealth_today'', Num pv_today)]))
          | MONTHLY \<Rightarrow>
              and_then (annuity_from_fv required_wealth_at_rent_start i1 m) (\<lambda>monthly.
                Inr (result @ [(''monthly_investment'', Num monthly)]))
          | COMBINED \<Rightarrow>
              and_then (fv_lump_sum (RentaInput.one_time_investment input_data) i1 m)
                (\<lambda>fv_one_time.
                  let remaining = required_wealth_at_rent_start - fv_one_time;
                      remaining = (if remaining < 0 then 0 else remaining)
                  in and_then (annuity_from_fv remaining i1 m) (\<lambda>monthly.
                       Inr (result @
                         [(''one_time_investment'',
                             Num (RentaInput.one_time_investment input_data)),
                          (''monthly_investment'', Num monthly),
                          (''fv_one_time_investment'', Num fv_one_time),
                          (''target_amount_remaining_for_monthly'', Num remaining)])))))"


section \<open>The HTTP endpoint\<close>

text \<open>
  The body of \<^verbatim>\<open>POST /calc\<close> is declared by the class \<^verbatim>\<open>CalcRequest\<close>. The two
  \<^verbatim>\<open>Literal\<close> fields are strings here and \<open>valid_request\<close> is their declared
  constraint; an \<^verbatim>\<open>Optional[float]\<close> field is \<open>None\<close> when the body omits it or
  sends \<^verbatim>\<open>null\<close>.
\<close>

record CalcRequest =
  goal_type :: string
  investment_type :: string
  one_time_investment :: "real option"
  target_amount :: "real option"
  years :: "real option"
  annual_rate_accum :: "real option"
  monthly_rent :: "real option"
  years_rent :: "real option"
  annual_rate_rent :: "real option"
  years_saving :: "real option"

definition valid_request :: "CalcRequest \<Rightarrow> bool" where
  "valid_request req =
     (CalcRequest.goal_type req \<in> set [''lump_sum'', ''renta''] \<and>
      CalcRequest.investment_type req \<in> set [''one_time'', ''monthly'', ''combined''])"

text \<open>
  What the caller receives: the returned dictionary (status 200), or an
  \<^verbatim>\<open>HTTPException\<close> with its status code and detail. The detail of a 500 is
  \<^verbatim>\<open>str(e)\<close> of the exception caught, kept as the exception itself.
\<close>

datatype detail = Msg string | StrOf py_error | ValidationErrors

datatype response = Returned result | HTTPException nat detail

fun status_code :: "response \<Rightarrow> nat" where
  "status_code (Returned r) = 200"
| "status_code (HTTPException c d) = c"

text \<open>\<^verbatim>\<open>InvestmentType(s)\<close>: the member with that value, \<^verbatim>\<open>ValueError\<close> if there is none.\<close>

definition InvestmentType_of :: "string \<Rightarrow> py_error + InvestmentType" where
  "InvestmentType_of s =
     (if s = ''one_time'' then Inr ONE_TIME
      else if s = ''monthly'' then Inr MONTHLY
      else if s = ''combined'' then Inr COMBINED
      else Inl ValueError)"

text \<open>\<^verbatim>\<open>getattr(req, k)\<close> for the names of the optional numeric fields.\<close>

definition getattr :: "CalcRequest \<Rightarrow> string \<Rightarrow> real option" where
  "getattr req k =
     (if k = ''one_time_investment'' then CalcRequest.one_time_investment req
      else if k = ''target_amount'' then CalcRequest.target_amount req
      else if k = ''years'' then CalcRequest.years req
      else if k = ''annual_rate_accum'' then CalcRequest.annual_rate_accum req
      else if k = ''monthly_rent'' then CalcRequest.monthly_rent req
      else if k = ''years_rent'' then CalcRequest.years_rent req
      else if k = ''annual_rate_rent'' then CalcRequest.annual_rate_rent req
      else if k = ''years_saving'' then CalcRequest.years_saving req
      else None)"

text \<open>How an f-string prints a list of strings: \<^verbatim>\<open>['a', 'b']\<close>.\<close>

fun join_names :: "string list \<Rightarrow> string" where
  "join_names [] = []"
| "join_names [k] = [CHR 0x27] @ k @ [CHR 0x27]"
| "join_names (k # ks) = [CHR 0x27] @ k @ [CHR 0x27] @ '', '' @ join_names ks"

definition str_of_names :: "string list \<Rightarrow> string" where
  "str_of_names ks = ''['' @ join_names ks @ '']''"

text \<open>\<^verbatim>\<open>x or 0.0\<close> for an optional float.\<close>

definition or_zero :: "real option \<Rightarrow> real" where
  "or_zero x = (case x of None \<Rightarrow> 0 | Some v \<Rightarrow> if v = 0 then 0 else v)"

definition lump_sum_fields :: "string list" where
  "lump_sum_fields = [''target_amount'', ''years'', ''annual_rate_accum'']"

definition renta_fields :: "string list" where
  "renta_fields =
     [''monthly_rent'', ''years_rent'', ''annual_rate_rent'', ''years_saving'',
      ''annual_rate_accum'']"

text \<open>
  The handler. An \<^verbatim>\<open>HTTPException\<close> raised inside is passed on, any other exception
  becomes a 500.
\<close>

definition respond :: "py_error + result \<Rightarrow> response" where
  "respond r = (case r of Inl e \<Rightarrow> HTTPException 500 (StrOf e) | Inr d \<Rightarrow> Returned d)"

definition calc :: "CalcRequest \<Rightarrow> response" where
  "calc req =
     (case InvestmentType_of (CalcRequest.investment_type req) of
        Inl e \<Rightarrow> HTTPException 500 (StrOf e)
      | Inr inv_type \<Rightarrow>
          if CalcRequest.goal_type req = ''lump_sum'' then
            (let missing = filter (\<lambda>k. getattr req k = None) lump_sum_fields
             in if missing \<noteq> [] then
                  HTTPException 400 (Msg (''Missing fields for lump_sum: '' @ str_of_names missing))
                else
                  respond (compute_lump_sum
                    \<lparr>LumpSumInput.target_amount = the (CalcRequest.target_amount req),
                     years = the (CalcRequest.years req),
                     annual_rate_accum = the (CalcRequest.annual_rate_accum req),
                     investment_type = inv_type,
                     one_time_investment = or_zero (CalcRequest.one_time_investment req)\<rparr>))
          else if CalcRequest.goal_type req = ''renta'' then
            (let missing = filter (\<lambda>k. getattr req k = None) renta_fields
             in if missing \<noteq> [] then
                  HTTPException 400 (Msg (''Missing fields for renta: '' @ str_of_names missing))
                else
                  respond (compute_renta
                    \<lparr>RentaInput.monthly_rent = the (CalcRequest.monthly_rent req),
                     years_rent = the (CalcRequest.years_rent req),
                     annual_rate_rent = the (CalcRequest.annual_rate_rent req),
                     years_saving = the (CalcRequest.years_saving req),
                     annual_rate_accum = the (CalcRequest.annual_rate_accum req),
                     investment_type = inv_type,
                     one_time_investment = or_zero (CalcRequest.one_time_investment req)\<rparr>))
          else HTTPException 400 (Msg ''Unknown goal_type''))"

text \<open>
  A request reaches \<open>calc\<close> only after the framework has validated its body against
  \<^verbatim>\<open>CalcRequest\<close>; a body that does not validate is answered by the framework with
  status 422 and a list of validation errors, and \<open>calc\<close> is not called. That answer
  is FastAPI's, whose code is not part of the repository; its status is the one FastAPI
  documents for a request validation error.
\<close>

definition post_calc :: "CalcRequest \<Rightarrow> response" where
  "post_calc body =
     (if valid_request body then calc body else HTTPException 422 ValidationErrors)"


section \<open>Observations used by the theorems\<close>

text \<open>
  The keys a calculator adds in its three branches, after the keys every result has, and
  the part of a result under those keys.
\<close>

definition branch_keys :: "string list" where
  "branch_keys =
     [''required_wealth_today'', ''monthly_investment'', ''one_time_investment'',
      ''fv_one_time_investment'', ''target_amount_remaining_for_monthly'']"

definition branch_fields :: "result \<Rightarrow> result" where
  "branch_fields res = filter (\<lambda>(k, v). k \<in> set branch_keys) res"

text \<open>
  The lump-sum input whose target is the wealth a renta needs at its start and whose
  accumulation phase is the renta's.
\<close>

definition lump_sum_of_renta :: "RentaInput \<Rightarrow> real \<Rightarrow> LumpSumInput" where
  "lump_sum_of_renta inp target =
     \<lparr>LumpSumInput.target_amount = target,
      years = RentaInput.years_saving inp,
      annual_rate_accum = RentaInput.annual_rate_accum inp,
      investment_type = RentaInput.investment_type inp,
      one_time_investment = RentaInput.one_time_investment inp\<rparr>"

text \<open>The required fields a request leaves \<open>None\<close>, in the order the handler tests them.\<close>

definition missing_fields :: "CalcRequest \<Rightarrow> string list \<Rightarrow> string list" where
  "missing_fields req names = filter (\<lambda>k. getattr req k = None) names"

text \<open>
  The factor by which \<open>pv_renta_required\<close> multiplies the monthly rent: \<open>n\<close> at a
  monthly rate of zero, \<^verbatim>\<open>(1 - (1 + i) ** (-n)) / i\<close> otherwise.
\<close>

definition drawdown_factor :: "real \<Rightarrow> int \<Rightarrow> real" where
  "drawdown_factor i n = (if i = 0 then of_int n else (1 - (1 + i) powi (- n)) / i)"


section \<open>Facts about the operators\<close>

lemma and_then_Inr [simp]: "and_then (Inr v) f = f v"
  by (simp add: and_then_def)

lemma and_then_Inl [simp]: "and_then (Inl e) f = Inl e"
  by (simp add: and_then_def)

lemma py_pow_int_pos [simp]: "0 < x \<Longrightarrow> py_pow_int x n = Inr (x powi n)"
  by (simp add: py_pow_int_def)

lemma py_round_of_int [simp]: "py_round (of_int k) = k"
  by (simp add: py_round_def)

lemma py_round_zero [simp]: "py_round 0 = 0"
  using py_round_of_int [of 0] by simp

lemma py_round_one [simp]: "py_round 1 = 1"
  using py_round_of_int [of 1] by simp

lemma py_round_numeral [simp]: "py_round (numeral k) = numeral k"
  using py_round_of_int [of "numeral k"] by simp

lemma py_round_neg_numeral [simp]: "py_round (- numeral k) = - numeral k"
  using py_round_of_int [of "- numeral k"] by simp

lemma eff_monthly_rate_real:
  "- 1 \<le> r \<Longrightarrow> eff_monthly_rate r = Inr ((1 + r) powr (1 / 12) - 1)"
  by (simp add: eff_monthly_rate_def py_pow_float_def)

lemma eff_monthly_rate_zero [simp]: "eff_monthly_rate 0 = Inr 0"
  by (simp add: eff_monthly_rate_real)

text \<open>An annual rate whose monthly rate is a rational number: 4096 is the twelfth power of 2.\<close>

lemma powr_4096: "(4096::real) powr (1 / 12) = 2"
proof -
  have "(4096::real) = 2 powr 12" by simp
  then have "(4096::real) powr (1 / 12) = (2 powr 12) powr (1 / 12)" by simp
  also have "\<dots> = 2" by (simp only: powr_powr) simp
  finally show ?thesis .
qed

lemma eff_monthly_rate_4095 [simp]: "eff_monthly_rate 4095 = Inr 1"
  by (simp add: eff_monthly_rate_real powr_4096)





lemma py_pow_int_nonneg_exp [simp]: "0 \<le> n \<Longrightarrow> py_pow_int x n = Inr (x powi n)"
  by (simp add: py_pow_int_def)








text \<open>
  A month count of zero is where the monthly and the combined plan raise: the condition on
  the month count in \<open>lump_sum_returns\<close> cannot be dropped.
\<close>

lemma annuity_from_fv_zero_months:
  assumes "- 1 < i"
  shows "annuity_from_fv fv i 0 = Inl ZeroDivisionError"
  using assms by (simp add: annuity_from_fv_def py_div_def)

lemma zero_months_raise:
  fixes inp :: LumpSumInput
  assumes "- 1 < LumpSumInput.annual_rate_accum inp"
    and "py_round (LumpSumInput.years inp * 12) = 0"
    and "LumpSumInput.investment_type inp \<noteq> ONE_TIME"
  shows "compute_lump_sum inp = Inl ZeroDivisionError"
proof -
  let ?i = "(1 + LumpSumInput.annual_rate_accum inp) powr (1 / 12) - 1"
  have e: "eff_monthly_rate (LumpSumInput.annual_rate_accum inp) = Inr ?i"
    using assms by (simp add: eff_monthly_rate_real)
  have i: "- 1 < ?i" using assms by simp
  show ?thesis
    using assms e annuity_from_fv_zero_months [OF i]
    by (cases "LumpSumInput.investment_type inp")
       (simp_all add: compute_lump_sum_def Let_def fv_lump_sum_def)
qed


section \<open>Facts about the drawdown factor and rounding\<close>


lemma drawdown_factor_zero [simp]: "drawdown_factor i 0 = 0"
  by (simp add: drawdown_factor_def)










section \<open>The monthly plan\<close>




section \<open>The renta's accumulation phase\<close>

text \<open>
  C3. The branch-specific fields of \<open>compute_renta\<close> (\<open>required_wealth_today\<close>,
  \<open>monthly_investment\<close>, \<open>one_time_investment\<close>, \<open>fv_one_time_investment\<close>,
  \<open>target_amount_remaining_for_monthly\<close>) are those of \<open>compute_lump_sum\<close> on the
  input with \<open>target_amount = pv_renta_required(monthly_rent, annual_rate_rent, years_rent)\<close>,
  \<open>years = years_saving\<close> and the same accumulation rate, investment type and one-time
  investment; where one side raises, the other raises the same error.
\<close>

theorem renta_accumulation_is_lump_sum:
  "map_sum id branch_fields (compute_renta inp) =
   and_then (pv_renta_required (RentaInput.monthly_rent inp) (RentaInput.annual_rate_rent inp)
               (RentaInput.years_rent inp))
     (\<lambda>target. map_sum id branch_fields (compute_lump_sum (lump_sum_of_renta inp target)))"
  by (cases "RentaInput.investment_type inp")
     (auto simp: compute_renta_def compute_lump_sum_def lump_sum_of_renta_def branch_fields_def
        branch_keys_def and_then_def Let_def split: sum.splits)

text \<open>
  A renta of 1000 a month for a year at rate 0 needs 12000; saved in one month at a monthly
  rate of 1 with 1500 paid at once, both calculators ask for 9000 a month.
\<close>

theorem renta_accumulation_is_lump_sum_witness:
  "pv_renta_required 1000 0 1 = Inr 12000 \<and>
   map_sum id branch_fields (compute_renta
     \<lparr>RentaInput.monthly_rent = 1000, years_rent = 1, annual_rate_rent = 0,
      years_saving = 1 / 12, annual_rate_accum = 4095, investment_type = COMBINED,
      one_time_investment = 1500\<rparr>) =
   Inr [(''one_time_investment'', Num 1500), (''monthly_investment'', Num 9000),
        (''fv_one_time_investment'', Num 3000),
        (''target_amount_remaining_for_monthly'', Num 9000)] \<and>
   map_sum id branch_fields (compute_lump_sum
     \<lparr>LumpSumInput.target_amount = 12000, years = 1 / 12, annual_rate_accum = 4095,
      investment_type = COMBINED, one_time_investment = 1500\<rparr>) =
   Inr [(''one_time_investment'', Num 1500), (''monthly_investment'', Num 9000),
        (''fv_one_time_investment'', Num 3000),
        (''target_amount_remaining_for_monthly'', Num 9000)]"
  using renta_accumulation_is_lump_sum
    [of "\<lparr>RentaInput.monthly_rent = 1000, years_rent = 1, annual_rate_rent = 0,
      years_saving = 1 / 12, annual_rate_accum = 4095, investment_type = COMBINED,
      one_time_investment = 1500\<rparr>"]
  by (simp add: pv_renta_required_def compute_lump_sum_def lump_sum_of_renta_def
        fv_lump_sum_def annuity_from_fv_def py_div_def branch_fields_def branch_keys_def)


section \<open>Present value and future value\<close>




section \<open>The one-time investment\<close>

text \<open>
  C9. Two lump-sum inputs (two renta inputs) that differ only in
  \<open>one_time_investment\<close> and whose investment type is ONE_TIME or MONTHLY give the same
  outcome: the same result, or the same error.
\<close>

theorem one_time_investment_only_combined:
  fixes a b :: LumpSumInput and c d :: RentaInput
  shows
  "(LumpSumInput.target_amount a = LumpSumInput.target_amount b \<and>
    LumpSumInput.years a = LumpSumInput.years b \<and>
    LumpSumInput.annual_rate_accum a = LumpSumInput.annual_rate_accum b \<and>
    LumpSumInput.investment_type a = LumpSumInput.investment_type b \<and>
    LumpSumInput.investment_type a \<in> {ONE_TIME, MONTHLY}
    \<longrightarrow> compute_lump_sum a = compute_lump_sum b) \<and>
   (RentaInput.monthly_rent c = RentaInput.monthly_rent d \<and>
    RentaInput.years_rent c = RentaInput.years_rent d \<and>
    RentaInput.annual_rate_rent c = RentaInput.annual_rate_rent d \<and>
    RentaInput.years_saving c = RentaInput.years_saving d \<and>
    RentaInput.annual_rate_accum c = RentaInput.annual_rate_accum d \<and>
    RentaInput.investment_type c = RentaInput.investment_type d \<and>
    RentaInput.investment_type c \<in> {ONE_TIME, MONTHLY}
    \<longrightarrow> compute_renta c = compute_renta d)"
  by (auto simp: compute_lump_sum_def compute_renta_def)

theorem one_time_investment_only_combined_witness:
  "compute_lump_sum
     \<lparr>LumpSumInput.target_amount = 1200, years = 1, annual_rate_accum = 0,
      investment_type = MONTHLY, one_time_investment = 0\<rparr> =
   compute_lump_sum
     \<lparr>LumpSumInput.target_amount = 1200, years = 1, annual_rate_accum = 0,
      investment_type = MONTHLY, one_time_investment = 700\<rparr> \<and>
   compute_renta
     \<lparr>RentaInput.monthly_rent = 1000, years_rent = 1, annual_rate_rent = 0, years_saving = 2,
      annual_rate_accum = 0, investment_type = ONE_TIME, one_time_investment = 0\<rparr> =
   compute_renta
     \<lparr>RentaInput.monthly_rent = 1000, years_rent = 1, annual_rate_rent = 0, years_saving = 2,
      annual_rate_accum = 0, investment_type = ONE_TIME, one_time_investment = 700\<rparr>"
  using one_time_investment_only_combined
    [of "\<lparr>LumpSumInput.target_amount = 1200, years = 1, annual_rate_accum = 0,
           investment_type = MONTHLY, one_time_investment = 0\<rparr>"
        "\<lparr>LumpSumInput.target_amount = 1200, years = 1, annual_rate_accum = 0,
           investment_type = MONTHLY, one_time_investment = 700\<rparr>"
        "\<lparr>RentaInput.monthly_rent = 1000, years_rent = 1, annual_rate_rent = 0,
           years_saving = 2, annual_rate_accum = 0, investment_type = ONE_TIME,
           one_time_investment = 0\<rparr>"
        "\<lparr>RentaInput.monthly_rent = 1000, years_rent = 1, annual_rate_rent = 0,
           years_saving = 2, annual_rate_accum = 0, investment_type = ONE_TIME,
           one_time_investment = 700\<rparr>"]
  by simp


section \<open>The combined plan\<close>







section \<open>Division by zero\<close>





section \<open>The endpoint's error responses\<close>

text \<open>
  C7. A validated request for a lump sum (a renta) that leaves at least one of
  \<open>target_amount\<close>, \<open>years\<close>, \<open>annual_rate_accum\<close> (of \<open>monthly_rent\<close>,
  \<open>years_rent\<close>, \<open>annual_rate_rent\<close>, \<open>years_saving\<close>, \<open>annual_rate_accum\<close>)
  empty is answered with status 400 and a detail that is the fixed text followed by the
  list of exactly the missing names, printed as Python prints a list of strings.
\<close>

theorem missing_fields_rejected:
  "(valid_request req \<and> CalcRequest.goal_type req = ''lump_sum'' \<and>
    missing_fields req lump_sum_fields \<noteq> []
    \<longrightarrow> post_calc req =
          HTTPException 400
            (Msg (''Missing fields for lump_sum: '' @
                  str_of_names (missing_fields req lump_sum_fields)))) \<and>
   (valid_request req \<and> CalcRequest.goal_type req = ''renta'' \<and>
    missing_fields req renta_fields \<noteq> []
    \<longrightarrow> post_calc req =
          HTTPException 400
            (Msg (''Missing fields for renta: '' @
                  str_of_names (missing_fields req renta_fields))))"
  by (auto simp: post_calc_def calc_def valid_request_def InvestmentType_of_def
        missing_fields_def Let_def)

theorem missing_fields_rejected_witness:
  "post_calc
     \<lparr>CalcRequest.goal_type = ''lump_sum'', investment_type = ''monthly'',
      one_time_investment = Some 0, target_amount = Some 1000000, years = None,
      annual_rate_accum = Some (7 / 100), monthly_rent = None, years_rent = None,
      annual_rate_rent = None, years_saving = None\<rparr> =
   HTTPException 400 (Msg ''Missing fields for lump_sum: ['years']'') \<and>
   post_calc
     \<lparr>CalcRequest.goal_type = ''renta'', investment_type = ''combined'',
      one_time_investment = None, target_amount = None, years = None,
      annual_rate_accum = None, monthly_rent = Some 30000, years_rent = Some 30,
      annual_rate_rent = None, years_saving = Some 18\<rparr> =
   HTTPException 400
     (Msg ''Missing fields for renta: ['annual_rate_rent', 'annual_rate_accum']'')"
  using missing_fields_rejected
    [of "\<lparr>CalcRequest.goal_type = ''lump_sum'', investment_type = ''monthly'',
      one_time_investment = Some 0, target_amount = Some 1000000, years = None,
      annual_rate_accum = Some (7 / 100), monthly_rent = None, years_rent = None,
      annual_rate_rent = None, years_saving = None\<rparr>"]
    missing_fields_rejected
    [of "\<lparr>CalcRequest.goal_type = ''renta'', investment_type = ''combined'',
      one_time_investment = None, target_amount = None, years = None,
      annual_rate_accum = None, monthly_rent = Some 30000, years_rent = Some 30,
      annual_rate_rent = None, years_saving = Some 18\<rparr>"]
  by (simp add: valid_request_def missing_fields_def lump_sum_fields_def renta_fields_def
        getattr_def str_of_names_def)

text \<open>
  C8 (amended). A body whose \<open>goal_type\<close> is neither \<^verbatim>\<open>lump_sum\<close> nor \<^verbatim>\<open>renta\<close>
  does not validate against \<^verbatim>\<open>CalcRequest\<close>: it is answered with status 422 and the
  handler does not run. The handler's own answer to such a value, status 400 with
  \<^verbatim>\<open>Unknown goal_type\<close>, is what \<open>calc\<close> returns when it is given one directly.
\<close>

theorem unknown_goal_type_fails_validation:
  "CalcRequest.goal_type req \<noteq> ''lump_sum'' \<and> CalcRequest.goal_type req \<noteq> ''renta''
   \<longrightarrow> post_calc req = HTTPException 422 ValidationErrors \<and>
       (CalcRequest.investment_type req \<in> set [''one_time'', ''monthly'', ''combined'']
        \<longrightarrow> calc req = HTTPException 400 (Msg ''Unknown goal_type''))"
  by (auto simp: post_calc_def valid_request_def calc_def InvestmentType_of_def)

theorem unknown_goal_type_fails_validation_witness:
  "post_calc
     \<lparr>CalcRequest.goal_type = ''pension'', investment_type = ''monthly'',
      one_time_investment = Some 0, target_amount = Some 1000000, years = Some 20,
      annual_rate_accum = Some (7 / 100), monthly_rent = None, years_rent = None,
      annual_rate_rent = None, years_saving = None\<rparr> = HTTPException 422 ValidationErrors \<and>
   calc
     \<lparr>CalcRequest.goal_type = ''pension'', investment_type = ''monthly'',
      one_time_investment = Some 0, target_amount = Some 1000000, years = Some 20,
      annual_rate_accum = Some (7 / 100), monthly_rent = None, years_rent = None,
      annual_rate_rent = None, years_saving = None\<rparr> =
   HTTPException 400 (Msg ''Unknown goal_type'')"
  using unknown_goal_type_fails_validation
    [of "\<lparr>CalcRequest.goal_type = ''pension'', investment_type = ''monthly'',
      one_time_investment = Some 0, target_amount = Some 1000000, years = Some 20,
      annual_rate_accum = Some (7 / 100), monthly_rent = None, years_rent = None,
      annual_rate_rent = None, years_saving = None\<rparr>"]
  by simp

text \<open>As stated, C8 fails: the status such a request receives is not 400.\<close>

theorem unknown_goal_type_not_400:
  "status_code (post_calc
     \<lparr>CalcRequest.goal_type = ''pension'', investment_type = ''monthly'',
      one_time_investment = Some 0, target_amount = Some 1000000, years = Some 20,
      annual_rate_accum = Some (7 / 100), monthly_rent = None, years_rent = None,
      annual_rate_rent = None, years_saving = None\<rparr>) \<noteq> 400"
  by (simp add: post_calc_def valid_request_def)


section \<open>Monotonicity of the wealth a renta requires\<close>




end
